theory Spec2Isabelle
  imports Main "HOL-Library.Sublist"
begin

section \<open>JavaScript values, errors and calls into the platform\<close>

text \<open>
  The three widgets (\<^verbatim>\<open>DataTable\<close>, the notebook page script and
  \<^verbatim>\<open>TextareaWrapper\<close>) are event handlers over a little private state.
  Every handler is embedded as a function from the state before to a triple: the state
  after, the calls it made into the platform and the libraries (in order), and the
  exception that ended it, if any. Writes to the console are left out: they change neither
  the state nor what is sent or shown.

  Values that travel through \<^verbatim>\<open>JSON.parse\<close> and \<^verbatim>\<open>socket.emit\<close>
  are \<open>jsval\<close>. An array carries its elements and the named properties assigned to it,
  an object its properties in insertion order. The widgets never compute with numbers, so a
  number is carried as an integer.
\<close>

datatype jsval =
    JUndefined
  | JNull
  | JBool bool
  | JNum int
  | JStr string
  | JArr "jsval list" "(string \<times> jsval) list"
  | JObj "(string \<times> jsval) list"

datatype error = TypeError | SyntaxError

type_synonym node = nat

text \<open>A node of the page is known by its identity only.\<close>

datatype markup = Blank | TableTemplate

record column =
  data :: string
  title :: string

record dt_config =
  processing :: bool
  serverSide :: bool
  ajax_url :: string
  ajax_type :: string
  columns :: "column list"
  searchDelay :: nat

record request =
  url :: string
  http_method :: string

datatype effect =
    Emit jsval jsval
  | Alert string
  | ScrollIntoView node
  | Focus
  | Blur
  | PreventDefault
  | SetInnerHTML markup
  | Ready "string option"
  | Ajax request
  | DataTableInit bool dt_config

type_synonym 'st outcome = "'st \<times> effect list \<times> error option"

definition state_of :: "'st outcome \<Rightarrow> 'st" where
  "state_of r = fst r"

definition effects_of :: "'st outcome \<Rightarrow> effect list" where
  "effects_of r = fst (snd r)"

definition thrown_of :: "'st outcome \<Rightarrow> error option" where
  "thrown_of r = snd (snd r)"

text \<open>
  \<^verbatim>\<open>if (v)\<close> on an attribute value: \<^verbatim>\<open>null\<close> and the empty string are
  falsy, every other string is truthy.
\<close>

fun truthy :: "string option \<Rightarrow> bool" where
  "truthy None = False"
| "truthy (Some v) = (v \<noteq> [])"

text \<open>
  Reading a property. \<^verbatim>\<open>null\<close> and \<^verbatim>\<open>undefined\<close> have none and the read
  throws; a primitive has none of the names used here; a missing property reads as
  \<^verbatim>\<open>undefined\<close>.
\<close>

fun lookup :: "(string \<times> jsval) list \<Rightarrow> string \<Rightarrow> jsval" where
  "lookup [] k = JUndefined"
| "lookup ((k', v) # ps) k = (if k' = k then v else lookup ps k)"

fun get_prop :: "jsval \<Rightarrow> string \<Rightarrow> error + jsval" where
  "get_prop JUndefined k = Inl TypeError"
| "get_prop JNull k = Inl TypeError"
| "get_prop (JObj ps) k = Inr (lookup ps k)"
| "get_prop (JArr xs ps) k = Inr (lookup ps k)"
| "get_prop v k = Inr JUndefined"

text \<open>
  Assigning a property. An existing property keeps its place, a new one goes last. The
  scripts of a class body are strict, so the assignment throws on a primitive as it does
  on \<^verbatim>\<open>null\<close> and \<^verbatim>\<open>undefined\<close>.
\<close>

fun assign :: "(string \<times> jsval) list \<Rightarrow> string \<Rightarrow> jsval \<Rightarrow> (string \<times> jsval) list" where
  "assign [] k v = [(k, v)]"
| "assign ((k', v') # ps) k v = (if k' = k then (k, v) # ps else (k', v') # assign ps k v)"

fun set_prop :: "jsval \<Rightarrow> string \<Rightarrow> jsval \<Rightarrow> error + jsval" where
  "set_prop (JObj ps) k v = Inr (JObj (assign ps k v))"
| "set_prop (JArr xs ps) k v = Inr (JArr xs (assign ps k v))"
| "set_prop w k v = Inl TypeError"

section \<open>The tracked text box: \<^verbatim>\<open>static/textarea_wrapper.js\<close>\<close>

text \<open>
  The element's attributes, the value and the \<^verbatim>\<open>data-edited\<close> entry of the inner
  \<^verbatim>\<open>textarea\<close>, and the two private fields. \<^verbatim>\<open>_originalContent\<close> is a string
  or \<^verbatim>\<open>null\<close>: the platform passes \<^verbatim>\<open>null\<close> as the new value when an
  attribute is removed.
\<close>

record textarea_wrapper =
  attrs :: "string \<rightharpoonup> string"
  textarea_value :: string
  dataset_edited :: string
  originalContent :: "string option"
  edited :: bool

definition string_of_bool :: "bool \<Rightarrow> string" where
  "string_of_bool b = (if b then ''true'' else ''false'')"

definition content :: "textarea_wrapper \<Rightarrow> string" where
  "content w = textarea_value w"

definition setEdited :: "bool \<Rightarrow> textarea_wrapper \<Rightarrow> textarea_wrapper" where
  "setEdited b w = w\<lparr>edited := b, dataset_edited := string_of_bool b\<rparr>"

text \<open>
  \<^verbatim>\<open>this._textarea.value == this._originalContent\<close>: the left side is always a
  string, and a string is loosely equal to no \<^verbatim>\<open>null\<close>.
\<close>

definition checkNoLongerEdited :: "textarea_wrapper \<Rightarrow> textarea_wrapper" where
  "checkNoLongerEdited w =
     (if Some (textarea_value w) = originalContent w then setEdited False w else w)"

text \<open>
  The value read back from a text box has every carriage return followed by a line feed,
  and every other carriage return, as one line feed.
\<close>

fun normalize_newlines :: "string \<Rightarrow> string" where
  "normalize_newlines [] = []"
| "normalize_newlines [c] = [if c = CHR 0x0D then CHR 0x0A else c]"
| "normalize_newlines (c # d # cs) =
     (if c = CHR 0x0D then
        (if d = CHR 0x0A then CHR 0x0A # normalize_newlines cs
         else CHR 0x0A # normalize_newlines (d # cs))
      else c # normalize_newlines (d # cs))"

text \<open>
  Assigning to the text box's value, as it is read back afterwards: \<^verbatim>\<open>null\<close> is
  stored as the empty string, a string with its line breaks rewritten.
\<close>

fun assigned_value :: "string option \<Rightarrow> string" where
  "assigned_value None = []"
| "assigned_value (Some v) = normalize_newlines v"

definition constructor :: "(string \<rightharpoonup> string) \<Rightarrow> textarea_wrapper" where
  "constructor as =
     setEdited False
       \<lparr>attrs = as, textarea_value = [], dataset_edited = [],
        originalContent = Some [], edited = False\<rparr>"

text \<open>
  The \<^verbatim>\<open>input\<close> listener. \<^verbatim>\<open>JSON.parse\<close> is the platform's; it is a
  parameter here, \<open>None\<close> standing for the \<^verbatim>\<open>SyntaxError\<close> it throws. What the
  listener did before an exception stays done.
\<close>

definition input_listener ::
  "(string \<Rightarrow> jsval option) \<Rightarrow> textarea_wrapper \<Rightarrow> textarea_wrapper outcome"
where
  "input_listener parse w =
     (let w1 = checkNoLongerEdited (setEdited True w) in
      case attrs w1 ''modify-event'' of
        None \<Rightarrow> (w1, [], None)
      | Some modifyEvent \<Rightarrow>
          if \<not> truthy (Some modifyEvent) then (w1, [], None)
          else
            (case parse modifyEvent of
               None \<Rightarrow> (w1, [], Some SyntaxError)
             | Some parsedEvent \<Rightarrow>
                 (case get_prop parsedEvent ''params'' of
                    Inl e \<Rightarrow> (w1, [], Some e)
                  | Inr params \<Rightarrow>
                      (case set_prop params ''content'' (JStr (content w1)) of
                         Inl e \<Rightarrow> (w1, [], Some e)
                       | Inr params' \<Rightarrow>
                           (case get_prop parsedEvent ''name'' of
                              Inl e \<Rightarrow> (w1, [], Some e)
                            | Inr name \<Rightarrow> (w1, [Emit name params'], None))))))"

text \<open>
  The browser changes the value of the text box and then fires \<^verbatim>\<open>input\<close>: typing
  that leaves \<open>y\<close> in the box is the listener run on the box holding \<open>y\<close>, the value
  as the listener reads it.
\<close>

definition input_event ::
  "(string \<Rightarrow> jsval option) \<Rightarrow> string \<Rightarrow> textarea_wrapper \<Rightarrow> textarea_wrapper outcome"
where
  "input_event parse y w = input_listener parse (w\<lparr>textarea_value := y\<rparr>)"

definition focus_listener ::
  "(string \<Rightarrow> jsval option) \<Rightarrow> textarea_wrapper \<Rightarrow> textarea_wrapper outcome"
where
  "focus_listener parse w =
     (case attrs w ''focus-event'' of
        None \<Rightarrow> (w, [], None)
      | Some focusEvent \<Rightarrow>
          if \<not> truthy (Some focusEvent) then (w, [], None)
          else
            (case parse focusEvent of
               None \<Rightarrow> (w, [], Some SyntaxError)
             | Some parsedEvent \<Rightarrow>
                 (case get_prop parsedEvent ''name'' of
                    Inl e \<Rightarrow> (w, [], Some e)
                  | Inr name \<Rightarrow>
                      (case get_prop parsedEvent ''params'' of
                         Inl e \<Rightarrow> (w, [], Some e)
                       | Inr params \<Rightarrow> (w, [Emit name params], None)))))"

definition observedAttributes :: "string list" where
  "observedAttributes = [''text'', ''focus'']"

definition attributeChangedCallback ::
  "string \<Rightarrow> string option \<Rightarrow> string option \<Rightarrow> textarea_wrapper \<Rightarrow> textarea_wrapper outcome"
where
  "attributeChangedCallback name oldValue newValue w =
     (let w1 =
            (if name = ''text'' then
               (let w2 = w\<lparr>originalContent := newValue\<rparr>;
                    w3 = (if \<not> edited w2
                          then w2\<lparr>textarea_value := assigned_value newValue\<rparr>
                          else w2)
                in checkNoLongerEdited w3)
             else w);
          fx = (if name = ''focus'' then (if truthy newValue then [Focus] else [Blur]) else [])
      in (w1, fx, None))"

text \<open>\<^verbatim>\<open>this.getAttribute('text') || ''\<close>: a missing or empty attribute gives the
  empty string.\<close>

definition connectedCallback :: "textarea_wrapper \<Rightarrow> textarea_wrapper outcome" where
  "connectedCallback w =
     (let oc = (case attrs w ''text'' of None \<Rightarrow> [] | Some v \<Rightarrow> if truthy (Some v) then v else [])
      in (w\<lparr>originalContent := Some oc, textarea_value := assigned_value (Some oc)\<rparr>, [], None))"

section \<open>The remote table: \<^verbatim>\<open>DataTable\<close>\<close>

text \<open>
  The element's attributes and the markup of its shadow root: nothing yet, or the style
  import with the empty \<^verbatim>\<open>table id="data-table"\<close>.
\<close>

record data_table =
  dt_attrs :: "string \<rightharpoonup> string"
  shadowRoot :: markup

definition dt_constructor :: "(string \<rightharpoonup> string) \<Rightarrow> data_table" where
  "dt_constructor as = \<lparr>dt_attrs = as, shadowRoot = Blank\<rparr>"

definition dt_observedAttributes :: "string list" where
  "dt_observedAttributes = [''server-url'']"

definition dt_connectedCallback :: "data_table \<Rightarrow> data_table outcome" where
  "dt_connectedCallback t = (t, [], None)"

text \<open>
  \<^verbatim>\<open>initializeTable\<close> writes the markup and hands jQuery the callback to run once the
  root is ready; the callback keeps \<^verbatim>\<open>serverUrl\<close> as read from the attribute, which
  is \<^verbatim>\<open>null\<close> when the attribute is missing.
\<close>

definition initializeTable :: "data_table \<Rightarrow> data_table outcome" where
  "initializeTable t =
     (let serverUrl = dt_attrs t ''server-url''
      in (t\<lparr>shadowRoot := TableTemplate\<rparr>, [SetInnerHTML TableTemplate, Ready serverUrl], None))"

definition dt_attributeChangedCallback ::
  "string \<Rightarrow> string option \<Rightarrow> string option \<Rightarrow> data_table \<Rightarrow> data_table outcome"
where
  "dt_attributeChangedCallback name oldValue newValue t =
     (if name = ''server-url'' \<and> oldValue \<noteq> newValue then
        (case initializeTable (t\<lparr>shadowRoot := Blank\<rparr>) of
           (t', fx, err) \<Rightarrow> (t', SetInnerHTML Blank # fx, err))
      else (t, [], None))"

text \<open>\<^verbatim>\<open>s.indexOf(c)\<close>: the first position of \<open>c\<close>, or \<open>-1\<close>.\<close>

fun indexOf :: "string \<Rightarrow> char \<Rightarrow> int" where
  "indexOf [] c = - 1"
| "indexOf (x # xs) c =
     (if x = c then 0 else (let i = indexOf xs c in if i = - 1 then - 1 else i + 1))"

text \<open>The callback given to \<^verbatim>\<open>ready\<close>: \<^verbatim>\<open>serverUrl.indexOf\<close> throws on
  \<^verbatim>\<open>null\<close>, before any request is made.\<close>

definition ready_callback :: "string option \<Rightarrow> data_table \<Rightarrow> data_table outcome" where
  "ready_callback serverUrl t =
     (case serverUrl of
        None \<Rightarrow> (t, [], Some TypeError)
      | Some u \<Rightarrow>
          (t, [Ajax \<lparr>url = u @ (if indexOf u CHR ''?'' = - 1 then ''?'' else ''&'') @ ''get-columns=true'',
                     http_method = ''POST''\<rparr>], None))"

definition getElementById_data_table :: "markup \<Rightarrow> bool" where
  "getElementById_data_table m = (m = TableTemplate)"

text \<open>The \<^verbatim>\<open>success\<close> and \<^verbatim>\<open>error\<close> callbacks of the request; both are made
  only with a string \<^verbatim>\<open>serverUrl\<close>. \<^verbatim>\<open>DataTableInit\<close> records whether the
  table element was found in the shadow root, and the configuration passed.\<close>

definition ajax_success :: "string \<Rightarrow> string list \<Rightarrow> data_table \<Rightarrow> data_table outcome" where
  "ajax_success serverUrl cols t =
     (let dtColumns = map (\<lambda>c. \<lparr>data = c, title = c\<rparr>) cols
      in (t, [DataTableInit (getElementById_data_table (shadowRoot t))
                \<lparr>processing = True, serverSide = True, ajax_url = serverUrl,
                 ajax_type = ''POST'', columns = dtColumns, searchDelay = 500\<rparr>], None))"

definition ajax_error :: "string \<Rightarrow> data_table \<Rightarrow> data_table outcome" where
  "ajax_error err t = (t, [Alert (''Failed to fetch columns: '' @ err)], None)"

section \<open>The live document: \<^verbatim>\<open>static/notebook.js\<close>\<close>

text \<open>
  The page is of any type \<open>'dom\<close>. What the script asks of it or does to it through the
  platform and \<^verbatim>\<open>morphdom\<close> are parameters: \<open>morph\<close> patches the children of the
  content container with a fragment and gives the page it leaves, with the exception it
  threw if it did not return (as it does on a fragment with no element, or when the page
  has no content container); \<open>query\<close> is
  \<^verbatim>\<open>document.querySelector('.scroll-to')\<close>, and \<open>byId\<close> is
  \<^verbatim>\<open>document.getElementById\<close> followed by the read of \<^verbatim>\<open>.content\<close>: \<open>None\<close>
  when no element has the id.
\<close>

record 'dom notebook =
  document :: 'dom
  lastScrolledTo :: "node option"

definition on_update ::
  "('dom \<Rightarrow> string \<Rightarrow> 'dom \<times> error option) \<Rightarrow> ('dom \<Rightarrow> node option) \<Rightarrow> string
     \<Rightarrow> 'dom notebook \<Rightarrow> 'dom notebook outcome"
where
  "on_update morph query fragment s =
     (case morph (document s) fragment of
        (d, Some e) \<Rightarrow> (s\<lparr>document := d\<rparr>, [], Some e)
      | (d, None) \<Rightarrow>
          (let s1 = s\<lparr>document := d\<rparr> in
           case query (document s1) of
             None \<Rightarrow> (s1, [], None)
           | Some scrollTo \<Rightarrow>
               if Some scrollTo \<noteq> lastScrolledTo s1
               then (s1\<lparr>lastScrolledTo := Some scrollTo\<rparr>, [ScrollIntoView scrollTo], None)
               else (s1, [], None)))"

definition saveCode ::
  "('dom \<Rightarrow> string \<Rightarrow> jsval option) \<Rightarrow> string \<Rightarrow> 'dom notebook \<Rightarrow> 'dom notebook outcome"
where
  "saveCode byId cellId s =
     (case byId (document s) (''code_'' @ cellId) of
        None \<Rightarrow> (s, [], Some TypeError)
      | Some codeContent \<Rightarrow>
          (s, [Emit (JStr ''save_code'')
                 (JObj [(''cell_id'', JStr cellId), (''content'', codeContent)])], None))"

definition runCell ::
  "('dom \<Rightarrow> string \<Rightarrow> jsval option) \<Rightarrow> string \<Rightarrow> 'dom notebook \<Rightarrow> 'dom notebook outcome"
where
  "runCell byId cellId s =
     (case saveCode byId cellId s of
        (s1, fx, Some e) \<Rightarrow> (s1, fx, Some e)
      | (s1, fx, None) \<Rightarrow> (s1, fx @ [Emit (JStr ''run_cell'') (JObj [(''cell_id'', JStr cellId)])], None))"

definition on_code_saved :: "jsval \<Rightarrow> 'dom notebook \<Rightarrow> 'dom notebook outcome" where
  "on_code_saved d s =
     (case get_prop d ''cell_id'' of Inl e \<Rightarrow> (s, [], Some e) | Inr _ \<Rightarrow> (s, [], None))"

record key_event =
  key :: string
  ctrlKey :: bool
  altKey :: bool
  target_is_body :: bool

text \<open>\<^verbatim>\<open>Array.prototype.join\<close> on an array of strings.\<close>

fun join :: "string \<Rightarrow> string list \<Rightarrow> string" where
  "join sep [] = []"
| "join sep [x] = x"
| "join sep (x # y # ys) = x @ sep @ join sep (y # ys)"

definition getKeyCombo :: "key_event \<Rightarrow> string" where
  "getKeyCombo ev =
     (let combo = [];
          combo = (if ctrlKey ev then combo @ [''Ctrl''] else combo);
          combo = (if altKey ev then combo @ [''Alt''] else combo);
          combo = combo @ [key ev]
      in join ''+'' combo)"

definition keydown_listener :: "key_event \<Rightarrow> 'dom notebook \<Rightarrow> 'dom notebook outcome" where
  "keydown_listener ev s =
     (let keyCombo = getKeyCombo ev
      in (s, Emit (JStr ''keydown'') (JObj [(''key'', JStr keyCombo)])
             # (if target_is_body ev then [PreventDefault] else []), None))"

definition on_connect :: "'dom notebook \<Rightarrow> 'dom notebook outcome" where
  "on_connect s = (s, [Emit (JStr ''loaded'') (JObj [])], None)"

section \<open>Reading the calls a handler made\<close>

fun emitted :: "effect list \<Rightarrow> (jsval \<times> jsval) list" where
  "emitted [] = []"
| "emitted (Emit n p # fx) = (n, p) # emitted fx"
| "emitted (_ # fx) = emitted fx"

fun alerts :: "effect list \<Rightarrow> string list" where
  "alerts [] = []"
| "alerts (Alert m # fx) = m # alerts fx"
| "alerts (_ # fx) = alerts fx"

fun scrolled :: "effect list \<Rightarrow> node list" where
  "scrolled [] = []"
| "scrolled (ScrollIntoView n # fx) = n # scrolled fx"
| "scrolled (_ # fx) = scrolled fx"

fun requests :: "effect list \<Rightarrow> request list" where
  "requests [] = []"
| "requests (Ajax r # fx) = r # requests fx"
| "requests (_ # fx) = requests fx"

fun tables :: "effect list \<Rightarrow> (bool \<times> dt_config) list" where
  "tables [] = []"
| "tables (DataTableInit found c # fx) = (found, c) # tables fx"
| "tables (_ # fx) = tables fx"

text \<open>Events delivered one after the other, each to the state the one before left.\<close>

fun type_all ::
  "(string \<Rightarrow> jsval option) \<Rightarrow> string list \<Rightarrow> textarea_wrapper \<Rightarrow> textarea_wrapper"
where
  "type_all parse [] w = w"
| "type_all parse (y # ys) w = type_all parse ys (state_of (input_event parse y w))"

fun updates ::
  "('dom \<Rightarrow> string \<Rightarrow> 'dom \<times> error option) \<Rightarrow> ('dom \<Rightarrow> node option) \<Rightarrow> string list
     \<Rightarrow> 'dom notebook \<Rightarrow> 'dom notebook \<times> effect list"
where
  "updates morph query [] s = (s, [])"
| "updates morph query (f # fs) s =
     (let r = on_update morph query f s;
          r' = updates morph query fs (state_of r)
      in (fst r', effects_of r @ snd r'))"

text \<open>
  The elements that carry the scroll marker after each patch of a run that returned, in
  order.
\<close>

fun targets ::
  "('dom \<Rightarrow> string \<Rightarrow> 'dom \<times> error option) \<Rightarrow> ('dom \<Rightarrow> node option) \<Rightarrow> string list
     \<Rightarrow> 'dom \<Rightarrow> node list"
where
  "targets morph query [] d = []"
| "targets morph query (f # fs) d =
     (case morph d f of
        (d', Some e) \<Rightarrow> targets morph query fs d'
      | (d', None) \<Rightarrow>
          (case query d' of None \<Rightarrow> [] | Some e \<Rightarrow> [e]) @ targets morph query fs d')"

text \<open>
  A small page to run the live document on: the page is its marked element, the fragment
  \<open>''A''\<close> puts the marker on node 1, \<open>''B''\<close> on node 2, any other fragment with an
  element on none; on the empty fragment the patch throws and leaves the page.
\<close>

definition marked_by :: "node option \<Rightarrow> string \<Rightarrow> node option \<times> error option" where
  "marked_by d f =
     (if f = [] then (d, Some TypeError)
      else if f = ''A'' then (Some 1, None)
      else if f = ''B'' then (Some 2, None)
      else (None, None))"

definition marked :: "node option \<Rightarrow> node option" where
  "marked d = d"

text \<open>
  A text box built with no attributes, given \<^verbatim>\<open>text="X"\<close>, whose \<^verbatim>\<open>text\<close>
  attribute is then removed: the platform calls back with \<^verbatim>\<open>null\<close> as the new value.
\<close>

definition text_removed :: textarea_wrapper where
  "text_removed =
     state_of (attributeChangedCallback ''text'' (Some ''X'') None
       (state_of (attributeChangedCallback ''text'' None (Some ''X'') (constructor Map.empty))))"

text \<open>
  A table built on \<^verbatim>\<open>server-url="/rows"\<close> whose \<^verbatim>\<open>server-url\<close> attribute is
  then removed: the notification the platform sends, with the old URL and \<^verbatim>\<open>null\<close>
  as the new value, the attribute being gone when the callback runs.
\<close>

definition url_removed :: "data_table outcome" where
  "url_removed =
     dt_attributeChangedCallback ''server-url'' (Some ''/rows'') None
       ((state_of (dt_attributeChangedCallback ''server-url'' None (Some ''/rows'')
          (dt_constructor [''server-url'' \<mapsto> ''/rows''])))\<lparr>dt_attrs := Map.empty\<rparr>)"

text \<open>
  An event descriptor as the page writes it into \<^verbatim>\<open>modify-event\<close> or
  \<^verbatim>\<open>focus-event\<close>, and the value \<^verbatim>\<open>JSON.parse\<close> gives for it.
\<close>

definition edit_descriptor :: string where
  \<open>edit_descriptor = ''{"name":"edit","params":{"cell":"c1"}}''\<close>

definition edit_parsed :: jsval where
  "edit_parsed = JObj [(''name'', JStr ''edit''), (''params'', JObj [(''cell'', JStr ''c1'')])]"

section \<open>Facts about the tracked text box\<close>

lemma input_state:
  "state_of (input_event parse y w) =
     checkNoLongerEdited (setEdited True (w\<lparr>textarea_value := y\<rparr>))"
  by (simp add: input_event_def input_listener_def state_of_def Let_def
      split: option.splits sum.splits)

lemma input_fields:
  "edited (state_of (input_event parse y w)) = (Some y \<noteq> originalContent w)"
  "textarea_value (state_of (input_event parse y w)) = y"
  "originalContent (state_of (input_event parse y w)) = originalContent w"
  by (simp_all add: input_state checkNoLongerEdited_def setEdited_def)

lemma type_all_original: "originalContent (type_all parse ys w) = originalContent w"
  by (induction ys arbitrary: w) (simp_all add: input_fields)

lemma text_fields:
  "originalContent (state_of (attributeChangedCallback ''text'' old new w)) = new"
  "textarea_value (state_of (attributeChangedCallback ''text'' old new w)) =
     (if edited w then textarea_value w else assigned_value new)"
  "edited (state_of (attributeChangedCallback ''text'' old new w)) =
     (edited w \<and> Some (textarea_value w) \<noteq> new)"
  by (auto simp add: attributeChangedCallback_def state_of_def Let_def
      checkNoLongerEdited_def setEdited_def)

lemma connected_fields:
  "originalContent (state_of (connectedCallback w)) =
     Some (case attrs w ''text'' of None \<Rightarrow> [] | Some v \<Rightarrow> v)"
  "textarea_value (state_of (connectedCallback w)) =
     normalize_newlines (case attrs w ''text'' of None \<Rightarrow> [] | Some v \<Rightarrow> v)"
  "edited (state_of (connectedCallback w)) = edited w"
  by (simp_all add: connectedCallback_def state_of_def Let_def split: option.splits)

text \<open>
  After typing, the flag says whether the box differs from \<^verbatim>\<open>_originalContent\<close>,
  whatever the state before. So it does after a \<^verbatim>\<open>text\<close> update that carries a
  string, when the box was edited or the string is read back from the box as it was given.
\<close>

lemma edited_tracks_difference:
  "edited (state_of (input_event parse y w)) =
     (Some (textarea_value (state_of (input_event parse y w)))
        \<noteq> originalContent (state_of (input_event parse y w)))"
  "edited w \<or> normalize_newlines v = v \<Longrightarrow>
   edited (state_of (attributeChangedCallback ''text'' old (Some v) w)) =
     (Some (textarea_value (state_of (attributeChangedCallback ''text'' old (Some v) w)))
        \<noteq> originalContent (state_of (attributeChangedCallback ''text'' old (Some v) w)))"
  by (auto simp add: input_fields text_fields)

lemma lookup_assign: "lookup (assign ps k v) k' = (if k' = k then v else lookup ps k')"
  by (induction ps) auto

lemma input_effects:
  "effects_of (input_event parse y w) =
     (case attrs w ''modify-event'' of
        None \<Rightarrow> []
      | Some m \<Rightarrow>
          if m = [] then []
          else
            (case parse m of
               None \<Rightarrow> []
             | Some pe \<Rightarrow>
                 (case get_prop pe ''params'' of
                    Inl e \<Rightarrow> []
                  | Inr p \<Rightarrow>
                      (case set_prop p ''content'' (JStr y) of
                         Inl e \<Rightarrow> []
                       | Inr p' \<Rightarrow>
                           (case get_prop pe ''name'' of
                              Inl e \<Rightarrow> []
                            | Inr n \<Rightarrow> [Emit n p'])))))"
  by (simp add: input_event_def input_listener_def effects_of_def Let_def content_def
      checkNoLongerEdited_def setEdited_def
      split: option.splits sum.splits)

lemma set_then_get:
  "set_prop p k v = Inr p' \<Longrightarrow> get_prop p' k' = (if k' = k then Inr v else get_prop p k')"
  by (cases p) (auto simp: lookup_assign)

section \<open>Facts about the remote table\<close>

lemma indexOf_lower: "- 1 \<le> indexOf u c"
  by (induction u) (auto simp: Let_def)

lemma indexOf_absent: "(indexOf u c = - 1) = (c \<notin> set u)"
proof (induction u)
  case Nil
  show ?case by simp
next
  case (Cons x xs)
  then show ?case using indexOf_lower [of xs c] by (auto simp: Let_def)
qed

lemma ready_requests:
  "requests (effects_of (ready_callback (Some u) t)) =
     [\<lparr>url = u @ (if CHR ''?'' \<in> set u then ''&'' else ''?'') @ ''get-columns=true'',
       http_method = ''POST''\<rparr>]"
  by (simp add: ready_callback_def effects_of_def indexOf_absent)

lemma success_tables:
  "tables (effects_of (ajax_success u cols t)) =
     [(getElementById_data_table (shadowRoot t),
       \<lparr>processing = True, serverSide = True, ajax_url = u, ajax_type = ''POST'',
        columns = map (\<lambda>c. \<lparr>data = c, title = c\<rparr>) cols, searchDelay = 500\<rparr>)]"
  by (simp add: ajax_success_def effects_of_def Let_def)

lemma initialize_result:
  "initializeTable t =
     (t\<lparr>shadowRoot := TableTemplate\<rparr>,
      [SetInnerHTML TableTemplate, Ready (dt_attrs t ''server-url'')], None)"
  by (simp add: initializeTable_def Let_def)

section \<open>Facts about the live document\<close>

lemma on_update_cases:
  "on_update morph query f s =
     (case morph (document s) f of
        (d, Some err) \<Rightarrow> (s\<lparr>document := d\<rparr>, [], Some err)
      | (d, None) \<Rightarrow>
          (case query d of
             None \<Rightarrow> (s\<lparr>document := d\<rparr>, [], None)
           | Some e \<Rightarrow>
               if Some e \<noteq> lastScrolledTo s
               then (s\<lparr>document := d, lastScrolledTo := Some e\<rparr>, [ScrollIntoView e], None)
               else (s\<lparr>document := d\<rparr>, [], None)))"
  by (simp add: on_update_def Let_def split: option.splits prod.splits)

lemma on_update_returned:
  "morph (document s) f = (d, None) \<Longrightarrow>
   on_update morph query f s =
     (case query d of
        None \<Rightarrow> (s\<lparr>document := d\<rparr>, [], None)
      | Some e \<Rightarrow>
          if Some e \<noteq> lastScrolledTo s
          then (s\<lparr>document := d, lastScrolledTo := Some e\<rparr>, [ScrollIntoView e], None)
          else (s\<lparr>document := d\<rparr>, [], None))"
  by (simp add: on_update_cases)

lemma on_update_threw:
  "morph (document s) f = (d, Some err) \<Longrightarrow>
   on_update morph query f s = (s\<lparr>document := d\<rparr>, [], Some err)"
  by (simp add: on_update_cases)

lemma scrolled_append: "scrolled (xs @ ys) = scrolled xs @ scrolled ys"
  by (induction xs rule: scrolled.induct) simp_all

lemma updates_scrolled:
  "scrolled (snd (updates morph query fs s)) =
     (case lastScrolledTo s of
        None \<Rightarrow> remdups_adj (targets morph query fs (document s))
      | Some l \<Rightarrow> tl (remdups_adj (l # targets morph query fs (document s))))"
proof (induction fs arbitrary: s)
  case Nil
  show ?case by (simp split: option.splits)
next
  case (Cons f fs)
  obtain d err where patched: "morph (document s) f = (d, err)"
    by (cases "morph (document s) f")
  show ?case
  proof (cases err)
    case (Some e)
    with patched show ?thesis
      by (cases "lastScrolledTo s")
         (simp_all add: Let_def on_update_threw state_of_def effects_of_def Cons.IH)
  next
    case None
    with patched have returned: "morph (document s) f = (d, None)" by simp
    show ?thesis
    proof (cases "query d")
      case None
      with returned show ?thesis
        by (cases "lastScrolledTo s")
           (simp_all add: Let_def on_update_returned state_of_def effects_of_def Cons.IH)
    next
      case (Some e)
      with returned show ?thesis
        by (cases "lastScrolledTo s")
           (simp_all add: Let_def on_update_returned state_of_def effects_of_def Cons.IH)
    qed
  qed
qed

section \<open>The claims about the tracked text box\<close>

text \<open>
  Claim C1. From any state of the text box: once \<^verbatim>\<open>text\<close> is set to \<open>X\<close>, an input
  that leaves \<open>Y\<close> in the box, \<open>Y\<close> other than \<open>X\<close>, sets the edited flag; while the flag
  is set, a \<^verbatim>\<open>text\<close> update to \<open>X\<close> leaves the value of the box as it was; and once
  \<^verbatim>\<open>text\<close> is set to \<open>Z\<close>, after any further typing, an input that leaves exactly
  \<open>Z\<close> in the box clears the flag.
\<close>

theorem textarea_edit_lifecycle:
  "(Y \<noteq> X \<longrightarrow>
      edited (state_of (input_event parse Y
        (state_of (attributeChangedCallback ''text'' old (Some X) w))))
    \<and> textarea_value (state_of (input_event parse Y
        (state_of (attributeChangedCallback ''text'' old (Some X) w)))) = Y)
 \<and> (edited w \<longrightarrow>
      textarea_value (state_of (attributeChangedCallback ''text'' old (Some X) w))
        = textarea_value w)
 \<and> \<not> edited (state_of (input_event parse Z
        (type_all parse ys (state_of (attributeChangedCallback ''text'' old (Some Z) w)))))"
  by (simp add: input_fields text_fields type_all_original)

theorem textarea_edit_lifecycle_witness:
  "(let w1 = state_of (attributeChangedCallback ''text'' None (Some ''X'') (constructor Map.empty));
        w2 = state_of (input_event Map.empty ''Y'' w1);
        w3 = state_of (attributeChangedCallback ''text'' (Some ''X'') (Some ''X'') w2);
        w4 = state_of (attributeChangedCallback ''text'' (Some ''X'') (Some ''Z'') w3);
        w5 = state_of (input_event Map.empty ''Z'' (type_all Map.empty [''Zz''] w4))
    in ''Y'' \<noteq> ''X'' \<and> edited w2 \<and> textarea_value w2 = ''Y''
       \<and> edited w2 \<and> textarea_value w3 = textarea_value w2
       \<and> \<not> edited w5)"
proof -
  let ?w0 = "constructor Map.empty"
  let ?w1 = "state_of (attributeChangedCallback ''text'' None (Some ''X'') ?w0)"
  let ?w2 = "state_of (input_event Map.empty ''Y'' ?w1)"
  let ?w3 = "state_of (attributeChangedCallback ''text'' (Some ''X'') (Some ''X'') ?w2)"
  have differ: "''Y'' \<noteq> ''X''" by simp
  have typed: "edited ?w2 \<and> textarea_value ?w2 = ''Y''"
    using textarea_edit_lifecycle [of "''Y''" "''X''" Map.empty None ?w0] differ by simp
  have kept: "textarea_value ?w3 = textarea_value ?w2"
    using textarea_edit_lifecycle [of "''Y''" "''X''" Map.empty "Some ''X''" ?w2] typed by simp
  have again: "\<not> edited (state_of (input_event Map.empty ''Z'' (type_all Map.empty [''Zz'']
      (state_of (attributeChangedCallback ''text'' (Some ''X'') (Some ''Z'') ?w3)))))"
    using textarea_edit_lifecycle [of "''Y''" "''X''" Map.empty "Some ''X''" ?w3 "''Z''" "[''Zz'']"]
    by simp
  show ?thesis using differ typed kept again by (simp add: Let_def)
qed

text \<open>
  Claim C3. The edited flag is to be set exactly when the box differs from the last
  \<^verbatim>\<open>text\<close> value given from outside. The callback misses the removal of the attribute:
  on \<^verbatim>\<open>null\<close> the box is emptied and the flag stays clear while
  \<^verbatim>\<open>_originalContent\<close> is \<^verbatim>\<open>null\<close>, which no value of the box equals, so that
  typing \<open>a\<close> and deleting it again leaves the flag set on an empty box.
  \<^verbatim>\<open>connectedCallback\<close> reads a missing attribute as the empty string, and there the
  same typing clears the flag.
\<close>

theorem text_removed_flag_disagrees:
  "\<not> edited text_removed
 \<and> textarea_value text_removed = []
 \<and> originalContent text_removed = None
 \<and> edited (type_all Map.empty [''a'', []] text_removed)
 \<and> textarea_value (type_all Map.empty [''a'', []] text_removed) = []
 \<and> \<not> edited (type_all Map.empty [''a'', []] (state_of (connectedCallback (constructor Map.empty))))
 \<and> textarea_value (type_all Map.empty [''a'', []] (state_of (connectedCallback (constructor Map.empty)))) = []"
  by (simp add: text_removed_def input_fields text_fields connected_fields constructor_def
      setEdited_def)

text \<open>
  Claim C9. On an input event, when \<^verbatim>\<open>modify-event\<close> holds a descriptor that parses
  to an object whose \<^verbatim>\<open>params\<close> is an object, one message is emitted: its name is
  the descriptor's \<^verbatim>\<open>name\<close>, its payload the \<^verbatim>\<open>params\<close> with
  \<^verbatim>\<open>content\<close> set to the value now in the box and every other property as parsed.
  On a focus event, when \<^verbatim>\<open>focus-event\<close> holds such a descriptor, one message is
  emitted with the parsed name and the parsed \<^verbatim>\<open>params\<close> as they are. When the
  attribute is absent nothing is emitted and nothing is thrown.
\<close>

theorem configured_event_emission:
  "(attrs w ''modify-event'' = Some m \<and> m \<noteq> [] \<and> parse m = Some pe
      \<and> get_prop pe ''name'' = Inr n \<and> get_prop pe ''params'' = Inr p
      \<and> set_prop p ''content'' (JStr y) = Inr p' \<longrightarrow>
      effects_of (input_event parse y w) = [Emit n p']
      \<and> content (state_of (input_event parse y w)) = y
      \<and> get_prop p' ''content'' = Inr (JStr y)
      \<and> (\<forall>k. k \<noteq> ''content'' \<longrightarrow> get_prop p' k = get_prop p k))
 \<and> (set_prop (JObj ps) ''content'' (JStr y) = Inr (JObj (assign ps ''content'' (JStr y))))
 \<and> (attrs w ''focus-event'' = Some m \<and> m \<noteq> [] \<and> parse m = Some pe
      \<and> get_prop pe ''name'' = Inr n \<and> get_prop pe ''params'' = Inr p \<longrightarrow>
      effects_of (focus_listener parse w) = [Emit n p]
      \<and> state_of (focus_listener parse w) = w)
 \<and> (attrs w ''modify-event'' = None \<longrightarrow>
      effects_of (input_event parse y w) = [] \<and> thrown_of (input_event parse y w) = None)
 \<and> (attrs w ''focus-event'' = None \<longrightarrow>
      effects_of (focus_listener parse w) = [] \<and> thrown_of (focus_listener parse w) = None)"
proof (intro conjI impI)
  assume h: "attrs w ''modify-event'' = Some m \<and> m \<noteq> [] \<and> parse m = Some pe
      \<and> get_prop pe ''name'' = Inr n \<and> get_prop pe ''params'' = Inr p
      \<and> set_prop p ''content'' (JStr y) = Inr p'"
  then show "effects_of (input_event parse y w) = [Emit n p']"
    by (simp add: input_effects)
  show "content (state_of (input_event parse y w)) = y"
    by (simp add: content_def input_fields)
  from h have sp: "set_prop p ''content'' (JStr y) = Inr p'" by simp
  show "get_prop p' ''content'' = Inr (JStr y)"
    using set_then_get [OF sp, of "''content''"] by simp
  show "\<forall>k. k \<noteq> ''content'' \<longrightarrow> get_prop p' k = get_prop p k"
    using set_then_get [OF sp] by simp
next
  show "set_prop (JObj ps) ''content'' (JStr y) = Inr (JObj (assign ps ''content'' (JStr y)))"
    by simp
next
  assume h: "attrs w ''focus-event'' = Some m \<and> m \<noteq> [] \<and> parse m = Some pe
      \<and> get_prop pe ''name'' = Inr n \<and> get_prop pe ''params'' = Inr p"
  then show "effects_of (focus_listener parse w) = [Emit n p]"
    by (simp add: focus_listener_def effects_of_def)
  show "state_of (focus_listener parse w) = w"
    by (simp add: focus_listener_def state_of_def split: option.splits sum.splits)
next
  assume "attrs w ''modify-event'' = None"
  then show "effects_of (input_event parse y w) = []"
    by (simp add: input_effects)
  from \<open>attrs w ''modify-event'' = None\<close>
  show "thrown_of (input_event parse y w) = None"
    by (simp add: input_event_def input_listener_def thrown_of_def Let_def
        checkNoLongerEdited_def setEdited_def)
next
  assume "attrs w ''focus-event'' = None"
  then show "effects_of (focus_listener parse w) = []"
    by (simp add: focus_listener_def effects_of_def)
  from \<open>attrs w ''focus-event'' = None\<close>
  show "thrown_of (focus_listener parse w) = None"
    by (simp add: focus_listener_def thrown_of_def)
qed

theorem configured_event_emission_witness:
  "(let w = constructor [''modify-event'' \<mapsto> edit_descriptor, ''focus-event'' \<mapsto> edit_descriptor];
        parse = [edit_descriptor \<mapsto> edit_parsed]
    in effects_of (input_event parse ''hello'' w)
         = [Emit (JStr ''edit'') (JObj [(''cell'', JStr ''c1''), (''content'', JStr ''hello'')])]
       \<and> effects_of (focus_listener parse w)
         = [Emit (JStr ''edit'') (JObj [(''cell'', JStr ''c1'')])]
       \<and> effects_of (input_event parse ''hello'' (constructor Map.empty)) = []
       \<and> effects_of (focus_listener parse (constructor Map.empty)) = [])"
proof -
  let ?w = "constructor [''modify-event'' \<mapsto> edit_descriptor, ''focus-event'' \<mapsto> edit_descriptor]"
  let ?parse = "[edit_descriptor \<mapsto> edit_parsed]"
  have set: "attrs ?w ''modify-event'' = Some edit_descriptor"
    "attrs ?w ''focus-event'' = Some edit_descriptor"
    "edit_descriptor \<noteq> []" "?parse edit_descriptor = Some edit_parsed"
    "get_prop edit_parsed ''name'' = Inr (JStr ''edit'')"
    "get_prop edit_parsed ''params'' = Inr (JObj [(''cell'', JStr ''c1'')])"
    "set_prop (JObj [(''cell'', JStr ''c1'')]) ''content'' (JStr ''hello'')
       = Inr (JObj [(''cell'', JStr ''c1''), (''content'', JStr ''hello'')])"
    by (simp_all add: constructor_def setEdited_def edit_descriptor_def edit_parsed_def)
  have unset: "attrs (constructor Map.empty) ''modify-event'' = None"
    "attrs (constructor Map.empty) ''focus-event'' = None"
    by (simp_all add: constructor_def setEdited_def)
  have a: "effects_of (input_event ?parse ''hello'' ?w)
         = [Emit (JStr ''edit'') (JObj [(''cell'', JStr ''c1''), (''content'', JStr ''hello'')])]"
    using configured_event_emission [of ?w edit_descriptor ?parse edit_parsed "JStr ''edit''"
        "JObj [(''cell'', JStr ''c1'')]" "''hello''"
        "JObj [(''cell'', JStr ''c1''), (''content'', JStr ''hello'')]"] set
    by blast
  have b: "effects_of (focus_listener ?parse ?w)
         = [Emit (JStr ''edit'') (JObj [(''cell'', JStr ''c1'')])]"
    using configured_event_emission [of ?w edit_descriptor ?parse edit_parsed "JStr ''edit''"
        "JObj [(''cell'', JStr ''c1'')]"] set
    by blast
  have c: "effects_of (input_event ?parse ''hello'' (constructor Map.empty)) = []"
    "effects_of (focus_listener ?parse (constructor Map.empty)) = []"
    using configured_event_emission [of "constructor Map.empty" _ ?parse _ _ _ "''hello''"] unset
    by blast+
  show ?thesis
    unfolding Let_def using a b c by blast
qed

section \<open>The claims about the remote table\<close>

text \<open>
  Claim C2, as stated: every \<^verbatim>\<open>server-url\<close> notification whose new value differs
  from the old one clears the output and re-initializes the table in full against the new
  URL, the column request and the table set-up included. The removal of the attribute is
  such a notification, with \<^verbatim>\<open>null\<close> as the new value: the output is cleared and the
  table markup written again, but the ready callback is left with no URL, makes no call
  at all and ends in a \<^verbatim>\<open>TypeError\<close>, so no column request goes out and no table
  is set up.
\<close>

theorem url_removed_counterexample:
  "Some ''/rows'' \<noteq> (None :: string option)
 \<and> effects_of url_removed = [SetInnerHTML Blank, SetInnerHTML TableTemplate, Ready None]
 \<and> shadowRoot (state_of url_removed) = TableTemplate
 \<and> effects_of (ready_callback None (state_of url_removed)) = []
 \<and> requests (effects_of (ready_callback None (state_of url_removed))) = []
 \<and> thrown_of (ready_callback None (state_of url_removed)) = Some TypeError"
  by (simp add: url_removed_def dt_attributeChangedCallback_def initialize_result
      ready_callback_def dt_constructor_def state_of_def effects_of_def thrown_of_def)

text \<open>
  Claim C2, amended. On a \<^verbatim>\<open>server-url\<close> notification whose new value equals the old
  one the widget does nothing: same state, no call. When the two differ, the markup is
  cleared first and \<^verbatim>\<open>initializeTable\<close> runs in full on the cleared widget: it writes
  the table markup and registers the ready callback with the attribute's value. When the
  new value is a URL \<open>u\<close>, held by the attribute, that callback posts the column request to
  an address that starts with \<open>u\<close>, and the table built on its answer is bound to \<open>u\<close>.
  When the attribute was removed, the callback is registered with no URL and makes no call.
\<close>

theorem table_rerender_gating:
  "(new = old \<longrightarrow> dt_attributeChangedCallback ''server-url'' old new t = (t, [], None))
 \<and> (new \<noteq> old \<longrightarrow>
      state_of (dt_attributeChangedCallback ''server-url'' old new t)
        = state_of (initializeTable (t\<lparr>shadowRoot := Blank\<rparr>))
      \<and> effects_of (dt_attributeChangedCallback ''server-url'' old new t)
        = SetInnerHTML Blank # effects_of (initializeTable (t\<lparr>shadowRoot := Blank\<rparr>))
      \<and> effects_of (dt_attributeChangedCallback ''server-url'' old new t)
        = [SetInnerHTML Blank, SetInnerHTML TableTemplate, Ready (dt_attrs t ''server-url'')]
      \<and> shadowRoot (state_of (dt_attributeChangedCallback ''server-url'' old new t))
        = TableTemplate)
 \<and> (new \<noteq> old \<and> dt_attrs t ''server-url'' = new \<and> new = Some u \<longrightarrow>
      Ready (Some u) \<in> set (effects_of (dt_attributeChangedCallback ''server-url'' old new t))
      \<and> map http_method (requests (effects_of (ready_callback (Some u)
            (state_of (dt_attributeChangedCallback ''server-url'' old new t))))) = [''POST'']
      \<and> map (\<lambda>r. take (length u) (url r)) (requests (effects_of (ready_callback (Some u)
            (state_of (dt_attributeChangedCallback ''server-url'' old new t))))) = [u]
      \<and> map (\<lambda>fc. (fst fc, ajax_url (snd fc), ajax_type (snd fc), serverSide (snd fc)))
           (tables (effects_of (ajax_success u cols
             (state_of (dt_attributeChangedCallback ''server-url'' old new t)))))
          = [(True, u, ''POST'', True)])
 \<and> (new \<noteq> old \<and> dt_attrs t ''server-url'' = new \<and> new = None \<longrightarrow>
      Ready None \<in> set (effects_of (dt_attributeChangedCallback ''server-url'' old new t))
      \<and> effects_of (ready_callback None
            (state_of (dt_attributeChangedCallback ''server-url'' old new t))) = [])"
proof (intro conjI impI)
  assume "new = old"
  then show "dt_attributeChangedCallback ''server-url'' old new t = (t, [], None)"
    by (simp add: dt_attributeChangedCallback_def)
next
  assume "new \<noteq> old"
  then have differ: "old \<noteq> new" by blast
  then have run: "dt_attributeChangedCallback ''server-url'' old new t =
      (t\<lparr>shadowRoot := TableTemplate\<rparr>,
       [SetInnerHTML Blank, SetInnerHTML TableTemplate, Ready (dt_attrs t ''server-url'')], None)"
    by (simp add: dt_attributeChangedCallback_def initialize_result)
  show "state_of (dt_attributeChangedCallback ''server-url'' old new t)
        = state_of (initializeTable (t\<lparr>shadowRoot := Blank\<rparr>))"
    by (simp add: run initialize_result state_of_def)
  show "effects_of (dt_attributeChangedCallback ''server-url'' old new t)
        = SetInnerHTML Blank # effects_of (initializeTable (t\<lparr>shadowRoot := Blank\<rparr>))"
    by (simp add: run initialize_result effects_of_def)
  show "effects_of (dt_attributeChangedCallback ''server-url'' old new t)
        = [SetInnerHTML Blank, SetInnerHTML TableTemplate, Ready (dt_attrs t ''server-url'')]"
    by (simp add: run effects_of_def)
  show "shadowRoot (state_of (dt_attributeChangedCallback ''server-url'' old new t))
        = TableTemplate"
    by (simp add: run state_of_def)
next
  assume h: "new \<noteq> old \<and> dt_attrs t ''server-url'' = new \<and> new = Some u"
  then have differ: "old \<noteq> new" and held: "dt_attrs t ''server-url'' = Some u"
    by blast+
  from differ have "dt_attributeChangedCallback ''server-url'' old new t =
      (t\<lparr>shadowRoot := TableTemplate\<rparr>,
       [SetInnerHTML Blank, SetInnerHTML TableTemplate, Ready (dt_attrs t ''server-url'')], None)"
    by (simp add: dt_attributeChangedCallback_def initialize_result)
  with held have run: "dt_attributeChangedCallback ''server-url'' old new t =
      (t\<lparr>shadowRoot := TableTemplate\<rparr>,
       [SetInnerHTML Blank, SetInnerHTML TableTemplate, Ready (Some u)], None)"
    by simp
  show "Ready (Some u) \<in> set (effects_of (dt_attributeChangedCallback ''server-url'' old new t))"
    by (simp add: run effects_of_def)
  show "map http_method (requests (effects_of (ready_callback (Some u)
            (state_of (dt_attributeChangedCallback ''server-url'' old new t))))) = [''POST'']"
    by (simp add: ready_requests)
  show "map (\<lambda>r. take (length u) (url r)) (requests (effects_of (ready_callback (Some u)
            (state_of (dt_attributeChangedCallback ''server-url'' old new t))))) = [u]"
    by (simp add: ready_requests)
  show "map (\<lambda>fc. (fst fc, ajax_url (snd fc), ajax_type (snd fc), serverSide (snd fc)))
           (tables (effects_of (ajax_success u cols
             (state_of (dt_attributeChangedCallback ''server-url'' old new t)))))
          = [(True, u, ''POST'', True)]"
    by (simp add: success_tables run state_of_def getElementById_data_table_def)
next
  assume h: "new \<noteq> old \<and> dt_attrs t ''server-url'' = new \<and> new = None"
  then have differ: "old \<noteq> new" and held: "dt_attrs t ''server-url'' = None"
    by blast+
  from differ have "dt_attributeChangedCallback ''server-url'' old new t =
      (t\<lparr>shadowRoot := TableTemplate\<rparr>,
       [SetInnerHTML Blank, SetInnerHTML TableTemplate, Ready (dt_attrs t ''server-url'')], None)"
    by (simp add: dt_attributeChangedCallback_def initialize_result)
  with held have run: "dt_attributeChangedCallback ''server-url'' old new t =
      (t\<lparr>shadowRoot := TableTemplate\<rparr>,
       [SetInnerHTML Blank, SetInnerHTML TableTemplate, Ready None], None)"
    by simp
  show "Ready None \<in> set (effects_of (dt_attributeChangedCallback ''server-url'' old new t))"
    by (simp add: run effects_of_def)
  show "effects_of (ready_callback None
            (state_of (dt_attributeChangedCallback ''server-url'' old new t))) = []"
    by (simp add: ready_callback_def effects_of_def)
qed

theorem table_rerender_gating_witness:
  "(let t = dt_constructor [''server-url'' \<mapsto> ''/rows''];
        r = dt_attributeChangedCallback ''server-url'' None (Some ''/rows'') t;
        t' = (state_of r)\<lparr>dt_attrs := Map.empty\<rparr>
    in dt_attributeChangedCallback ''server-url'' (Some ''/rows'') (Some ''/rows'') (state_of r)
         = (state_of r, [], None)
       \<and> Some ''/rows'' \<noteq> None
       \<and> effects_of r = [SetInnerHTML Blank, SetInnerHTML TableTemplate, Ready (Some ''/rows'')]
       \<and> shadowRoot (state_of r) = TableTemplate
       \<and> map url (requests (effects_of (ready_callback (Some ''/rows'') (state_of r))))
          = [''/rows?get-columns=true'']
       \<and> dt_attrs t' ''server-url'' = None
       \<and> Ready None
          \<in> set (effects_of (dt_attributeChangedCallback ''server-url'' (Some ''/rows'') None t'))
       \<and> effects_of (ready_callback None
            (state_of (dt_attributeChangedCallback ''server-url'' (Some ''/rows'') None t'))) = [])"
proof -
  let ?t = "dt_constructor [''server-url'' \<mapsto> ''/rows'']"
  let ?r = "dt_attributeChangedCallback ''server-url'' None (Some ''/rows'') ?t"
  let ?t' = "(state_of ?r)\<lparr>dt_attrs := Map.empty\<rparr>"
  have same: "dt_attributeChangedCallback ''server-url'' (Some ''/rows'') (Some ''/rows'') (state_of ?r)
         = (state_of ?r, [], None)"
    using table_rerender_gating [of "Some ''/rows''" "Some ''/rows''" "state_of ?r"] by simp
  have differs: "Some ''/rows'' \<noteq> (None :: string option)" by simp
  have attr: "dt_attrs ?t ''server-url'' = Some ''/rows''" by (simp add: dt_constructor_def)
  have raw: "effects_of ?r
        = [SetInnerHTML Blank, SetInnerHTML TableTemplate, Ready (dt_attrs ?t ''server-url'')]
      \<and> shadowRoot (state_of ?r) = TableTemplate"
    using table_rerender_gating [of "Some ''/rows''" None ?t "''/rows''" "[]"] differs
    by blast
  have rebuilt: "effects_of ?r = [SetInnerHTML Blank, SetInnerHTML TableTemplate, Ready (Some ''/rows'')]"
    "shadowRoot (state_of ?r) = TableTemplate"
    using raw attr by simp_all
  have req: "map url (requests (effects_of (ready_callback (Some ''/rows'') (state_of ?r))))
          = [''/rows?get-columns=true'']"
    by (simp add: ready_callback_def effects_of_def)
  have gone: "dt_attrs ?t' ''server-url'' = None" by simp
  have removed: "(None :: string option) \<noteq> Some ''/rows''" by simp
  have idle: "Ready None
          \<in> set (effects_of (dt_attributeChangedCallback ''server-url'' (Some ''/rows'') None ?t'))
       \<and> effects_of (ready_callback None
            (state_of (dt_attributeChangedCallback ''server-url'' (Some ''/rows'') None ?t'))) = []"
    using table_rerender_gating [of None "Some ''/rows''" ?t'] removed gone
    by blast
  show ?thesis unfolding Let_def using same differs rebuilt req gone idle by blast
qed

text \<open>
  Claim C8. For every server URL \<open>u\<close> the ready callback issues one request, a
  \<^verbatim>\<open>POST\<close>, to \<open>u\<close> followed by \<^verbatim>\<open>?get-columns=true\<close> when \<open>u\<close> has no
  \<^verbatim>\<open>?\<close> and by \<^verbatim>\<open>&get-columns=true\<close> when it has one; \<open>u\<close> is what
  \<^verbatim>\<open>initializeTable\<close> reads from the attribute.
\<close>

theorem column_fetch_url:
  "(CHR ''?'' \<notin> set u \<longrightarrow>
      requests (effects_of (ready_callback (Some u) t))
        = [\<lparr>url = u @ ''?get-columns=true'', http_method = ''POST''\<rparr>])
 \<and> (CHR ''?'' \<in> set u \<longrightarrow>
      requests (effects_of (ready_callback (Some u) t))
        = [\<lparr>url = u @ ''&get-columns=true'', http_method = ''POST''\<rparr>])
 \<and> effects_of (initializeTable (t\<lparr>dt_attrs := (dt_attrs t)(''server-url'' \<mapsto> u)\<rparr>))
     = [SetInnerHTML TableTemplate, Ready (Some u)]"
proof (intro conjI impI)
  assume "CHR ''?'' \<notin> set u"
  then show "requests (effects_of (ready_callback (Some u) t))
        = [\<lparr>url = u @ ''?get-columns=true'', http_method = ''POST''\<rparr>]"
    by (simp add: ready_requests)
next
  assume "CHR ''?'' \<in> set u"
  then show "requests (effects_of (ready_callback (Some u) t))
        = [\<lparr>url = u @ ''&get-columns=true'', http_method = ''POST''\<rparr>]"
    by (simp add: ready_requests)
next
  show "effects_of (initializeTable (t\<lparr>dt_attrs := (dt_attrs t)(''server-url'' \<mapsto> u)\<rparr>))
     = [SetInnerHTML TableTemplate, Ready (Some u)]"
    by (simp add: initialize_result effects_of_def)
qed

theorem column_fetch_url_witness:
  "CHR ''?'' \<notin> set ''/rows''
 \<and> requests (effects_of (ready_callback (Some ''/rows'') (dt_constructor Map.empty)))
     = [\<lparr>url = ''/rows?get-columns=true'', http_method = ''POST''\<rparr>]
 \<and> CHR ''?'' \<in> set ''/rows?page=2''
 \<and> requests (effects_of (ready_callback (Some ''/rows?page=2'') (dt_constructor Map.empty)))
     = [\<lparr>url = ''/rows?page=2&get-columns=true'', http_method = ''POST''\<rparr>]"
proof -
  have plain: "CHR ''?'' \<notin> set ''/rows''" by simp
  have query: "CHR ''?'' \<in> set ''/rows?page=2''" by simp
  show ?thesis
    using column_fetch_url [of "''/rows''" "dt_constructor Map.empty"] plain
      column_fetch_url [of "''/rows?page=2''" "dt_constructor Map.empty"] query
    by simp
qed

text \<open>
  Claim C7. On a successful answer \<open>cols\<close>, a list of column names, the table is set up
  once, with one column for each name in the answer's order, the name being both the data
  key and the title; the answer \<open>a, b\<close> gives exactly the two columns \<open>a\<close> and \<open>b\<close>. The
  table element is found whenever \<^verbatim>\<open>initializeTable\<close> has written the markup.
\<close>

theorem columns_from_fetch:
  "map (\<lambda>fc. map data (columns (snd fc))) (tables (effects_of (ajax_success u cols t))) = [cols]
 \<and> map (\<lambda>fc. map title (columns (snd fc))) (tables (effects_of (ajax_success u cols t))) = [cols]
 \<and> map (\<lambda>fc. length (columns (snd fc))) (tables (effects_of (ajax_success u cols t)))
     = [length cols]
 \<and> (shadowRoot t = TableTemplate \<longrightarrow>
      map fst (tables (effects_of (ajax_success u cols t))) = [True])
 \<and> map (\<lambda>fc. columns (snd fc)) (tables (effects_of (ajax_success u [''a'', ''b''] t)))
     = [[\<lparr>data = ''a'', title = ''a''\<rparr>, \<lparr>data = ''b'', title = ''b''\<rparr>]]"
  by (simp add: success_tables getElementById_data_table_def comp_def)

theorem columns_from_fetch_witness:
  "shadowRoot (state_of (initializeTable (dt_constructor Map.empty))) = TableTemplate
 \<and> map fst (tables (effects_of (ajax_success ''/rows'' [''a'', ''b'']
       (state_of (initializeTable (dt_constructor Map.empty)))))) = [True]
 \<and> map (\<lambda>fc. map title (columns (snd fc))) (tables (effects_of (ajax_success ''/rows'' [''a'', ''b'']
       (state_of (initializeTable (dt_constructor Map.empty)))))) = [[''a'', ''b'']]"
proof -
  have shown: "shadowRoot (state_of (initializeTable (dt_constructor Map.empty))) = TableTemplate"
    by (simp add: initialize_result state_of_def)
  show ?thesis
    using columns_from_fetch [of "''/rows''" "[''a'', ''b'']"
        "state_of (initializeTable (dt_constructor Map.empty))"] shown
    by simp
qed

text \<open>
  Claim C6. When the column request fails, the error callback raises exactly one alert,
  whose message ends with the error text; it sends no request, sets up no table, and leaves
  the widget as it was. No other handler of the three widgets raises an alert.
\<close>

theorem column_fetch_failure_alert:
  "effects_of (ajax_error err t) = [Alert (''Failed to fetch columns: '' @ err)]
 \<and> alerts (effects_of (ajax_error err t)) = [''Failed to fetch columns: '' @ err]
 \<and> list_all (sublist err) (alerts (effects_of (ajax_error err t)))
 \<and> requests (effects_of (ajax_error err t)) = []
 \<and> tables (effects_of (ajax_error err t)) = []
 \<and> state_of (ajax_error err t) = t
 \<and> thrown_of (ajax_error err t) = None
 \<and> alerts (effects_of (dt_connectedCallback t)) = []
 \<and> alerts (effects_of (dt_attributeChangedCallback name old new t)) = []
 \<and> alerts (effects_of (initializeTable t)) = []
 \<and> alerts (effects_of (ready_callback serverUrl t)) = []
 \<and> alerts (effects_of (ajax_success u cols t)) = []
 \<and> alerts (effects_of (input_listener parse w)) = []
 \<and> alerts (effects_of (input_event parse y w)) = []
 \<and> alerts (effects_of (focus_listener parse w)) = []
 \<and> alerts (effects_of (attributeChangedCallback name old new w)) = []
 \<and> alerts (effects_of (connectedCallback w)) = []
 \<and> alerts (effects_of (on_update morph query f s)) = []
 \<and> alerts (effects_of (saveCode byId cellId s)) = []
 \<and> alerts (effects_of (runCell byId cellId s)) = []
 \<and> alerts (effects_of (on_code_saved d s)) = []
 \<and> alerts (effects_of (keydown_listener ev s)) = []
 \<and> alerts (effects_of (on_connect s)) = []"
proof -
  have failure: "effects_of (ajax_error err t) = [Alert (''Failed to fetch columns: '' @ err)]"
    "state_of (ajax_error err t) = t" "thrown_of (ajax_error err t) = None"
    by (simp_all add: ajax_error_def effects_of_def state_of_def thrown_of_def)
  have named: "sublist err (''Failed to fetch columns: '' @ err)"
    by (rule suffix_imp_sublist) (simp add: suffix_def)
  have table: "alerts (effects_of (dt_connectedCallback t)) = []"
    "alerts (effects_of (dt_attributeChangedCallback name old new t)) = []"
    "alerts (effects_of (initializeTable t)) = []"
    "alerts (effects_of (ready_callback serverUrl t)) = []"
    "alerts (effects_of (ajax_success u cols t)) = []"
    by (simp_all add: dt_connectedCallback_def dt_attributeChangedCallback_def
        initialize_result ready_callback_def ajax_success_def effects_of_def
        split: option.splits)
  have input: "alerts (effects_of (input_event parse y w)) = []" for y w
    by (simp add: input_effects split: option.splits sum.splits)
  have listener: "alerts (effects_of (input_listener parse w)) = []"
    using input [of "textarea_value w" w] by (simp add: input_event_def)
  have box: "alerts (effects_of (focus_listener parse w)) = []"
    "alerts (effects_of (attributeChangedCallback name old new w)) = []"
    "alerts (effects_of (connectedCallback w)) = []"
    by (simp_all add: focus_listener_def attributeChangedCallback_def connectedCallback_def
        effects_of_def Let_def split: option.splits sum.splits)
  have page: "alerts (effects_of (on_update morph query f s)) = []"
    "alerts (effects_of (saveCode byId cellId s)) = []"
    "alerts (effects_of (runCell byId cellId s)) = []"
    "alerts (effects_of (on_code_saved d s)) = []"
    "alerts (effects_of (keydown_listener ev s)) = []"
    "alerts (effects_of (on_connect s)) = []"
    by (simp_all add: on_update_cases saveCode_def runCell_def on_code_saved_def
        keydown_listener_def on_connect_def effects_of_def
        split: option.splits sum.splits prod.splits)
  show ?thesis
    using failure named table input listener box page by simp
qed

section \<open>The claims about the live document\<close>

text \<open>
  Claim C4, as stated: over any sequence of updates an element is scrolled into view at
  most once. The script remembers the last element scrolled to and no other, so an element
  that carries the marker again after another one did is scrolled to again: with the marker
  on node 1, then on node 2, then on node 1, node 1 is scrolled to twice.
\<close>

theorem scroll_twice_counterexample:
  "scrolled (snd (updates marked_by marked [''A'', ''B'', ''A'']
      \<lparr>document = None, lastScrolledTo = None\<rparr>)) = [1, 2, 1]
 \<and> count_list (scrolled (snd (updates marked_by marked [''A'', ''B'', ''A'']
      \<lparr>document = None, lastScrolledTo = None\<rparr>))) 1 = 2"
  by (simp add: on_update_cases marked_by_def marked_def state_of_def effects_of_def)

text \<open>
  Claim C4, amended. Over any sequence of updates the elements scrolled to are the marked
  elements found after each patch with every repetition of the one before dropped, counting
  from the element last scrolled to: an update that finds no marked element scrolls nothing
  and forgets nothing, and an element found again after another one is scrolled to again.
  After each patch, a marked element other than the one last scrolled to is scrolled into
  view exactly once and becomes the one last scrolled to; the one last scrolled to is not
  scrolled to again. An update whose patch throws scrolls nothing and forgets nothing.
\<close>

theorem scroll_once_per_run:
  "scrolled (snd (updates morph query fs s)) =
     (case lastScrolledTo s of
        None \<Rightarrow> remdups_adj (targets morph query fs (document s))
      | Some l \<Rightarrow> tl (remdups_adj (l # targets morph query fs (document s))))
 \<and> (morph (document s) f = (d, None) \<and> query d = Some e \<and> lastScrolledTo s \<noteq> Some e \<longrightarrow>
      effects_of (on_update morph query f s) = [ScrollIntoView e]
      \<and> lastScrolledTo (state_of (on_update morph query f s)) = Some e)
 \<and> (morph (document s) f = (d, None) \<and> query d = Some e \<and> lastScrolledTo s = Some e \<longrightarrow>
      effects_of (on_update morph query f s) = []
      \<and> lastScrolledTo (state_of (on_update morph query f s)) = Some e)
 \<and> (morph (document s) f = (d, None) \<and> query d = None \<longrightarrow>
      effects_of (on_update morph query f s) = []
      \<and> lastScrolledTo (state_of (on_update morph query f s)) = lastScrolledTo s)
 \<and> (morph (document s) f = (d, Some err) \<longrightarrow>
      effects_of (on_update morph query f s) = []
      \<and> lastScrolledTo (state_of (on_update morph query f s)) = lastScrolledTo s
      \<and> thrown_of (on_update morph query f s) = Some err)"
proof (intro conjI impI)
  show "scrolled (snd (updates morph query fs s)) =
     (case lastScrolledTo s of
        None \<Rightarrow> remdups_adj (targets morph query fs (document s))
      | Some l \<Rightarrow> tl (remdups_adj (l # targets morph query fs (document s))))"
    by (rule updates_scrolled)
qed (auto simp add: on_update_cases state_of_def effects_of_def thrown_of_def)

theorem scroll_once_per_run_witness:
  "scrolled (snd (updates marked_by marked [''A'', ''A'', ''none'', ''A'', ''B'', [], ''B'', ''A'']
      \<lparr>document = None, lastScrolledTo = None\<rparr>)) = [1, 2, 1]
 \<and> marked_by None ''A'' = (Some 1, None) \<and> marked (Some 1) = Some 1
 \<and> effects_of (on_update marked_by marked ''A'' \<lparr>document = None, lastScrolledTo = None\<rparr>)
     = [ScrollIntoView 1]
 \<and> effects_of (on_update marked_by marked ''A'' \<lparr>document = Some 1, lastScrolledTo = Some 1\<rparr>)
     = []
 \<and> effects_of (on_update marked_by marked ''none'' \<lparr>document = Some 1, lastScrolledTo = Some 1\<rparr>)
     = []
 \<and> marked_by (Some 1) [] = (Some 1, Some TypeError)
 \<and> effects_of (on_update marked_by marked [] \<lparr>document = Some 1, lastScrolledTo = Some 1\<rparr>)
     = []"
proof -
  have q: "marked_by None ''A'' = (Some 1, None)" "marked_by (Some 1) ''A'' = (Some 1, None)"
    "marked_by (Some 1) ''none'' = (None, None)" "marked_by (Some 1) [] = (Some 1, Some TypeError)"
    "marked (Some 1) = Some 1" "marked None = None"
    by (simp_all add: marked_by_def marked_def)
  have "scrolled (snd (updates marked_by marked
      [''A'', ''A'', ''none'', ''A'', ''B'', [], ''B'', ''A'']
      \<lparr>document = None, lastScrolledTo = None\<rparr>))
      = remdups_adj (targets marked_by marked
          [''A'', ''A'', ''none'', ''A'', ''B'', [], ''B'', ''A''] None)"
    by (simp add: conjunct1 [OF scroll_once_per_run] del: updates.simps targets.simps)
  also have "\<dots> = [1, 2, 1]"
    by (simp add: marked_by_def marked_def)
  finally have run: "scrolled (snd (updates marked_by marked
      [''A'', ''A'', ''none'', ''A'', ''B'', [], ''B'', ''A'']
      \<lparr>document = None, lastScrolledTo = None\<rparr>)) = [1, 2, 1]" .
  have first: "effects_of (on_update marked_by marked ''A''
      \<lparr>document = None, lastScrolledTo = None\<rparr>) = [ScrollIntoView 1]"
    using scroll_once_per_run [of marked_by marked _
        "\<lparr>document = None, lastScrolledTo = None\<rparr>" "''A''" "Some 1" 1] q
    by simp
  have again: "effects_of (on_update marked_by marked ''A''
      \<lparr>document = Some 1, lastScrolledTo = Some 1\<rparr>) = []"
    using scroll_once_per_run [of marked_by marked _
        "\<lparr>document = Some 1, lastScrolledTo = Some 1\<rparr>" "''A''" "Some 1" 1] q
    by simp
  have none: "effects_of (on_update marked_by marked ''none''
      \<lparr>document = Some 1, lastScrolledTo = Some 1\<rparr>) = []"
    using scroll_once_per_run [of marked_by marked _
        "\<lparr>document = Some 1, lastScrolledTo = Some 1\<rparr>" "''none''" None] q
    by simp
  have threw: "effects_of (on_update marked_by marked []
      \<lparr>document = Some 1, lastScrolledTo = Some 1\<rparr>) = []"
    using scroll_once_per_run [of marked_by marked _
        "\<lparr>document = Some 1, lastScrolledTo = Some 1\<rparr>" "[]" "Some 1" _ TypeError] q
    by simp
  show ?thesis using q run first again none threw by blast
qed

text \<open>
  Claim C5. On every key press one \<^verbatim>\<open>keydown\<close> message is emitted, whose
  \<^verbatim>\<open>key\<close> is \<^verbatim>\<open>Ctrl\<close> when the Ctrl modifier is held, then \<^verbatim>\<open>Alt\<close>
  when the Alt modifier is held, then the name of the key, joined with \<^verbatim>\<open>+\<close>; with
  both held and the key \<open>s\<close> it is \<^verbatim>\<open>Ctrl+Alt+s\<close>.
\<close>

theorem key_combo_encoding:
  "emitted (effects_of (keydown_listener ev s))
     = [(JStr ''keydown'', JObj [(''key'', JStr (getKeyCombo ev))])]
 \<and> getKeyCombo ev
     = join ''+'' ((if ctrlKey ev then [''Ctrl''] else []) @ (if altKey ev then [''Alt''] else [])
         @ [key ev])
 \<and> getKeyCombo ev
     = (if ctrlKey ev then ''Ctrl+'' else []) @ (if altKey ev then ''Alt+'' else []) @ key ev
 \<and> (ctrlKey ev \<and> altKey ev \<and> key ev = ''s'' \<longrightarrow>
      emitted (effects_of (keydown_listener ev s))
        = [(JStr ''keydown'', JObj [(''key'', JStr ''Ctrl+Alt+s'')])])"
  by (simp add: keydown_listener_def effects_of_def getKeyCombo_def Let_def)

theorem key_combo_encoding_witness:
  "ctrlKey \<lparr>key = ''s'', ctrlKey = True, altKey = True, target_is_body = True\<rparr>
 \<and> altKey \<lparr>key = ''s'', ctrlKey = True, altKey = True, target_is_body = True\<rparr>
 \<and> emitted (effects_of (keydown_listener
      \<lparr>key = ''s'', ctrlKey = True, altKey = True, target_is_body = True\<rparr>
      \<lparr>document = (), lastScrolledTo = None\<rparr>))
     = [(JStr ''keydown'', JObj [(''key'', JStr ''Ctrl+Alt+s'')])]"
  using key_combo_encoding
    [of "\<lparr>key = ''s'', ctrlKey = True, altKey = True, target_is_body = True\<rparr>"
        "\<lparr>document = (), lastScrolledTo = None\<rparr>"]
  by simp

text \<open>
  Claim C10. When the page has the code element of the cell, \<^verbatim>\<open>runCell\<close> emits
  \<^verbatim>\<open>save_code\<close> with the cell's id and the element's content and then
  \<^verbatim>\<open>run_cell\<close> with the same id, and nothing else. When the page has no such element
  the read of its content throws and nothing is emitted. So no \<^verbatim>\<open>run_cell\<close> is ever
  emitted that does not come right after the \<^verbatim>\<open>save_code\<close> of the same cell.
\<close>

theorem run_saves_first:
  "(byId (document s) (''code_'' @ cellId) = Some c \<longrightarrow>
      emitted (effects_of (runCell byId cellId s))
        = [(JStr ''save_code'', JObj [(''cell_id'', JStr cellId), (''content'', c)]),
           (JStr ''run_cell'', JObj [(''cell_id'', JStr cellId)])]
      \<and> emitted (effects_of (saveCode byId cellId s))
        = [(JStr ''save_code'', JObj [(''cell_id'', JStr cellId), (''content'', c)])])
 \<and> (byId (document s) (''code_'' @ cellId) = None \<longrightarrow>
      emitted (effects_of (runCell byId cellId s)) = []
      \<and> thrown_of (runCell byId cellId s) = Some TypeError)
 \<and> emitted (effects_of (runCell byId cellId s))
     = (case byId (document s) (''code_'' @ cellId) of
          None \<Rightarrow> []
        | Some c \<Rightarrow>
            [(JStr ''save_code'', JObj [(''cell_id'', JStr cellId), (''content'', c)]),
             (JStr ''run_cell'', JObj [(''cell_id'', JStr cellId)])])
 \<and> state_of (runCell byId cellId s) = s"
  by (cases "byId (document s) (''code_'' @ cellId)")
     (simp_all add: runCell_def saveCode_def effects_of_def thrown_of_def state_of_def)

theorem run_saves_first_witness:
  "[''code_c1'' \<mapsto> JStr ''1 + 1''] (''code_'' @ ''c1'') = Some (JStr ''1 + 1'')
 \<and> emitted (effects_of (runCell id ''c1''
      \<lparr>document = [''code_c1'' \<mapsto> JStr ''1 + 1''], lastScrolledTo = None\<rparr>))
     = [(JStr ''save_code'', JObj [(''cell_id'', JStr ''c1''), (''content'', JStr ''1 + 1'')]),
        (JStr ''run_cell'', JObj [(''cell_id'', JStr ''c1'')])]
 \<and> [''code_c1'' \<mapsto> JStr ''1 + 1''] (''code_'' @ ''c2'') = None
 \<and> emitted (effects_of (runCell id ''c2''
      \<lparr>document = [''code_c1'' \<mapsto> JStr ''1 + 1''], lastScrolledTo = None\<rparr>)) = []"
proof -
  let ?s = "\<lparr>document = [''code_c1'' \<mapsto> JStr ''1 + 1''], lastScrolledTo = None\<rparr>"
  have there: "id (document ?s) (''code_'' @ ''c1'') = Some (JStr ''1 + 1'')" by simp
  have absent: "id (document ?s) (''code_'' @ ''c2'') = None" by simp
  have ran: "emitted (effects_of (runCell id ''c1'' ?s))
     = [(JStr ''save_code'', JObj [(''cell_id'', JStr ''c1''), (''content'', JStr ''1 + 1'')]),
        (JStr ''run_cell'', JObj [(''cell_id'', JStr ''c1'')])]"
    using run_saves_first [of id ?s "''c1''" "JStr ''1 + 1''"] there by blast
  have threw: "emitted (effects_of (runCell id ''c2'' ?s)) = []"
    using run_saves_first [of id ?s "''c2''"] absent by blast
  show ?thesis using there absent ran threw by simp
qed

end
